theory Spec2Isabelle
  imports Main
begin

section \<open>Python strings\<close>

text \<open>
  A Python \<open>str\<close> is modelled as a \<open>string\<close>: one list element per character, so that
  \<open>length\<close> is Python's \<open>len\<close>. The characters are the code points below 256; among them
  \<open>str.isspace\<close>, \<open>str.split()\<close>, \<open>str.strip()\<close> and the regular expression class
  \<open>\s\<close> agree on the whitespace characters: 9 to 13, 28 to 32, 133 and 160, and the
  decimal digits are \<open>0\<close> to \<open>9\<close>. (\<open>int\<close> has a smaller set of whitespace, see
  \<open>py_int\<close>.) Texts with whitespace or digits of higher code points are outside the
  model.
\<close>

definition isspace :: "char \<Rightarrow> bool" where
  "isspace c = (let n = (of_char c :: nat) in
     (9 \<le> n \<and> n \<le> 13) \<or> (28 \<le> n \<and> n \<le> 32) \<or> n = 133 \<or> n = 160)"

text \<open>\<open>s.strip()\<close>: leading and trailing whitespace removed.\<close>

definition str_strip :: "string \<Rightarrow> string" where
  "str_strip s = rev (dropWhile isspace (rev (dropWhile isspace s)))"

text \<open>
  \<open>s.split()\<close> with no argument: the maximal runs of non-whitespace characters, in order.
  \<open>cur\<close> is the word being read.
\<close>

fun split_acc :: "string \<Rightarrow> string \<Rightarrow> string list" where
  "split_acc cur [] = (if cur = [] then [] else [cur])"
| "split_acc cur (c # cs) =
     (if isspace c then (if cur = [] then split_acc [] cs else cur # split_acc [] cs)
      else split_acc (cur @ [c]) cs)"

definition str_split :: "string \<Rightarrow> string list" where
  "str_split s = split_acc [] s"

text \<open>\<open>sep.join(xs)\<close>.\<close>

fun str_join :: "string \<Rightarrow> string list \<Rightarrow> string" where
  "str_join sep [] = []"
| "str_join sep [x] = x"
| "str_join sep (x # y # ys) = x @ sep @ str_join sep (y # ys)"

text \<open>
  \<open>re.sub(r'\s+', ' ', s)\<close>: every maximal run of whitespace becomes one space.
  \<open>inrun\<close> says that the previous character was whitespace.
\<close>

fun collapse_ws :: "bool \<Rightarrow> string \<Rightarrow> string" where
  "collapse_ws inrun [] = []"
| "collapse_ws inrun (c # cs) =
     (if isspace c then (if inrun then collapse_ws True cs else CHR '' '' # collapse_ws True cs)
      else c # collapse_ws False cs)"

definition re_sub_ws :: "string \<Rightarrow> string" where
  "re_sub_ws s = collapse_ws False s"

section \<open>Effects\<close>

text \<open>
  Exceptions are values. \<open>HTTPError\<close>, \<open>ConnectionError\<close> and \<open>Timeout\<close> are subclasses of
  \<open>requests.RequestException\<close>; every constructor is a subclass of \<open>Exception\<close>.
\<close>

datatype exn =
    RequestException
  | HTTPError
  | ConnectionError
  | Timeout
  | TypeError
  | ValueError
  | KeyError
  | OtherException

fun is_RequestException :: "exn \<Rightarrow> bool" where
  "is_RequestException RequestException = True"
| "is_RequestException HTTPError = True"
| "is_RequestException ConnectionError = True"
| "is_RequestException Timeout = True"
| "is_RequestException _ = False"

text \<open>
  A news entry is the dictionary that \<open>extract_news_entry\<close> builds: its keys with their
  values, in the order of the dictionary display.
\<close>

type_synonym entry = "(string \<times> string) list"

text \<open>
  What a run does to the outside is recorded as a trace of events: each HTTP request, each
  call of the translation service, each log record, each task handed to the executor and
  each call of \<open>DataFrame.to_excel\<close>, with the file name and the rows it is given.
\<close>

datatype event =
    HttpGet string
  | Translate string
  | LogError string
  | LogInfo string
  | Submit int
  | ToExcel string "entry list"

text \<open>
  The state threaded through the code: the outside world (of any type \<open>'w\<close>; the network and
  the translation service read and change it) and the trace so far.
\<close>

type_synonym 'w state = "'w \<times> event list"

definition emit :: "event \<Rightarrow> 'w state \<Rightarrow> 'w state" where
  "emit e s = (fst s, snd s @ [e])"

record response =
  status_code :: nat
  resp_text :: string

text \<open>
  The two XPath queries \<open>extract_news_entry\<close> makes on a listing row: the text nodes under
  \<open>h3\<close> and the first \<open>href\<close> under it (\<open>None\<close> when there is none).
\<close>

record row =
  h3_texts :: "string list"
  h3_href :: "string option"

text \<open>
  The three XPath queries made on a detail page: the first text node of the date span, the
  text nodes of the intro block and the text nodes of the remaining content blocks.
\<close>

record detail =
  date_text :: "string option"
  intro_texts :: "string list"
  content_texts :: "string list"

text \<open>
  The external collaborators, taken as parameters: \<open>requests.get\<close> and
  \<open>translate_text(t)['TranslatedText']\<close> act on the world and either raise or return;
  \<open>unidecode\<close> and the XPath queries on a page's text are functions of their argument.
  \<open>to_excel filename rows\<close> stands for \<open>pd.DataFrame(rows).to_excel(filename, ...)\<close>,
  which writes the file or raises (openpyxl refuses a cell with a control character, the
  disk may be full). A run calls it at most once, so its outcome is taken as a function of
  what it is given.
\<close>

record 'w env =
  requests_get :: "string \<Rightarrow> 'w \<Rightarrow> (exn + response) \<times> 'w"
  translate_text :: "string \<Rightarrow> 'w \<Rightarrow> (exn + string) \<times> 'w"
  unidecode :: "string \<Rightarrow> string"
  news_rows :: "string \<Rightarrow> row list"
  detail_page :: "string \<Rightarrow> detail"
  pagination :: "string \<Rightarrow> string option"
  to_excel :: "string \<Rightarrow> entry list \<Rightarrow> exn + unit"

definition call_translate :: "'w env \<Rightarrow> string \<Rightarrow> 'w state \<Rightarrow> (exn + string) \<times> 'w state" where
  "call_translate env t s =
     (case translate_text env t (fst s) of (r, w') \<Rightarrow> (r, (w', snd s @ [Translate t])))"

definition call_get :: "'w env \<Rightarrow> string \<Rightarrow> 'w state \<Rightarrow> (exn + response) \<times> 'w state" where
  "call_get env url s =
     (case requests_get env url (fst s) of (r, w') \<Rightarrow> (r, (w', snd s @ [HttpGet url])))"

text \<open>\<open>response.raise_for_status()\<close> raises \<open>HTTPError\<close> on a 4xx or 5xx status.\<close>

definition raise_for_status :: "response \<Rightarrow> exn + unit" where
  "raise_for_status r =
     (if 400 \<le> status_code r \<and> status_code r < 600 then Inl HTTPError else Inr ())"

section \<open>safe_translate\<close>

text \<open>
  The loop over \<open>words\<close> of \<open>safe_translate\<close>: \<open>chunks\<close> and \<open>current_chunk\<close> are the
  loop's two variables.
\<close>

fun chunk_loop :: "int \<Rightarrow> string list \<Rightarrow> string list \<Rightarrow> string \<Rightarrow> string list \<times> string" where
  "chunk_loop chunk_size [] chunks current_chunk = (chunks, current_chunk)"
| "chunk_loop chunk_size (word # words) chunks current_chunk =
     (if int (length current_chunk) + int (length word) + 1 > chunk_size
      then chunk_loop chunk_size words (chunks @ [str_strip current_chunk]) word
      else chunk_loop chunk_size words chunks
             (if current_chunk \<noteq> [] then current_chunk @ '' '' @ word else word))"

definition make_chunks :: "int \<Rightarrow> string \<Rightarrow> string list" where
  "make_chunks chunk_size txt =
     (case chunk_loop chunk_size (str_split txt) [] [] of
        (chunks, current_chunk) \<Rightarrow>
          if current_chunk \<noteq> [] then chunks @ [str_strip current_chunk] else chunks)"

text \<open>
  The loop over \<open>chunks\<close>: a chunk whose call raises is logged and kept as it is.
\<close>

fun translate_chunks ::
  "'w env \<Rightarrow> string list \<Rightarrow> string list \<Rightarrow> 'w state \<Rightarrow> string list \<times> 'w state" where
  "translate_chunks env [] translated_chunks s = (translated_chunks, s)"
| "translate_chunks env (chunk # chunks) translated_chunks s =
     (case call_translate env chunk s of
        (Inr translated_chunk, s1) \<Rightarrow>
          translate_chunks env chunks (translated_chunks @ [translated_chunk]) s1
      | (Inl e, s1) \<Rightarrow>
          translate_chunks env chunks (translated_chunks @ [chunk])
            (emit (LogError ''Translation error for chunk'') s1))"

definition safe_translate :: "'w env \<Rightarrow> string \<Rightarrow> int \<Rightarrow> 'w state \<Rightarrow> string \<times> 'w state" where
  "safe_translate env txt chunk_size s =
     (if txt = [] \<or> length txt < 3 then ([], s)
      else if int (length txt) > chunk_size then
        (case translate_chunks env (make_chunks chunk_size txt) [] s of
           (translated_chunks, s1) \<Rightarrow> (str_join '' '' translated_chunks, s1))
      else
        (case call_translate env txt s of
           (Inr translated, s1) \<Rightarrow> (translated, s1)
         | (Inl e, s1) \<Rightarrow> (txt, emit (LogError ''Translation error'') s1)))"

section \<open>format_date\<close>

definition isdigit :: "char \<Rightarrow> bool" where
  "isdigit c = (48 \<le> (of_char c :: nat) \<and> (of_char c :: nat) \<le> 57)"

definition digit_val :: "char \<Rightarrow> nat" where
  "digit_val c = of_char c - 48"

definition digit_char :: "nat \<Rightarrow> char" where
  "digit_char n = ''0123456789'' ! (n mod 10)"

text \<open>
  \<open>int(s)\<close> on a string, base 10, as CPython 3.11 computes it. Whitespace at both ends
  is skipped, where whitespace is what C's \<open>isspace\<close> accepts (9 to 13 and 32) and the
  two whitespace characters from 128 on (133 and 160), which \<open>int\<close> first turns into
  spaces; the characters 28 to 31 are not skipped. One sign is allowed, and the rest must
  be digits, with single underscores allowed between two digits. \<open>digits_ok prev\<close> checks
  the rest, \<open>prev\<close> saying that the previous character was a digit. A string of more
  than \<open>sys.get_int_max_str_digits()\<close> digits, 4300 by default, raises \<open>ValueError\<close> too.
\<close>

definition int_space :: "char \<Rightarrow> bool" where
  "int_space c = (let n = (of_char c :: nat) in
     (9 \<le> n \<and> n \<le> 13) \<or> n = 32 \<or> n = 133 \<or> n = 160)"

definition int_max_str_digits :: nat where
  "int_max_str_digits = 4300"

fun digits_ok :: "bool \<Rightarrow> string \<Rightarrow> bool" where
  "digits_ok prev [] = prev"
| "digits_ok prev (c # cs) =
     (if isdigit c then digits_ok True cs
      else c = CHR ''_'' \<and> prev \<and> cs \<noteq> [] \<and> isdigit (hd cs) \<and> digits_ok False cs)"

definition digits_value :: "string \<Rightarrow> nat" where
  "digits_value ds = foldl (\<lambda>a c. 10 * a + digit_val c) 0 (filter isdigit ds)"

definition py_int :: "string \<Rightarrow> exn + int" where
  "py_int s =
     (let t = rev (dropWhile int_space (rev (dropWhile int_space s)));
          neg = (t \<noteq> [] \<and> hd t = CHR ''-'');
          body = (if t \<noteq> [] \<and> (hd t = CHR ''-'' \<or> hd t = CHR ''+'') then tl t else t)
      in if digits_ok False body \<and> length (filter isdigit body) \<le> int_max_str_digits
         then Inr (if neg then - int (digits_value body) else int (digits_value body))
         else Inl ValueError)"

text \<open>
  \<open>datetime.strptime(date_str, "%d.%m.%Y. %H:%M")\<close>. CPython turns the format into the
  regular expression
  \<^verbatim>\<open>(?P<d>3[0-1]|[1-2]\d|0[1-9]|[1-9]| [1-9])\.(?P<m>1[0-2]|0[1-9]|[1-9])\.(?P<Y>\d\d\d\d)\.\s+(?P<H>2[0-3]|[0-1]\d|\d):(?P<M>[0-5]\d|\d)\<close>
  matches it at the start of the string (\<open>re.match\<close>, with backtracking), raises
  \<open>ValueError\<close> when there is no match or when the match does not end where the string
  ends, and builds the \<open>datetime\<close>, which raises \<open>ValueError\<close> for year 0 and for a day the
  month does not have. A matcher returns every way to match, first choice first, each with
  the rest of the string; \<open>re.match\<close> takes the first.
\<close>

definition in_range :: "char \<Rightarrow> char \<Rightarrow> char \<Rightarrow> bool" where
  "in_range lo hi c = ((of_char lo :: nat) \<le> of_char c \<and> (of_char c :: nat) \<le> of_char hi)"

fun match_classes :: "(char \<Rightarrow> bool) list \<Rightarrow> string \<Rightarrow> (string \<times> string) option" where
  "match_classes [] s = Some ([], s)"
| "match_classes (p # ps) [] = None"
| "match_classes (p # ps) (c # cs) =
     (if p c then map_option (\<lambda>(m, r). (c # m, r)) (match_classes ps cs) else None)"

definition alternatives :: "(char \<Rightarrow> bool) list list \<Rightarrow> string \<Rightarrow> (string \<times> string) list" where
  "alternatives alts s = List.map_filter (\<lambda>alt. match_classes alt s) alts"

definition re_d :: "(char \<Rightarrow> bool) list list" where
  "re_d = [[(=) CHR ''3'', in_range CHR ''0'' CHR ''1''],
           [in_range CHR ''1'' CHR ''2'', isdigit],
           [(=) CHR ''0'', in_range CHR ''1'' CHR ''9''],
           [in_range CHR ''1'' CHR ''9''],
           [(=) CHR '' '', in_range CHR ''1'' CHR ''9'']]"

definition re_m :: "(char \<Rightarrow> bool) list list" where
  "re_m = [[(=) CHR ''1'', in_range CHR ''0'' CHR ''2''],
           [(=) CHR ''0'', in_range CHR ''1'' CHR ''9''],
           [in_range CHR ''1'' CHR ''9'']]"

definition re_Y :: "(char \<Rightarrow> bool) list list" where
  "re_Y = [[isdigit, isdigit, isdigit, isdigit]]"

definition re_H :: "(char \<Rightarrow> bool) list list" where
  "re_H = [[(=) CHR ''2'', in_range CHR ''0'' CHR ''3''],
           [in_range CHR ''0'' CHR ''1'', isdigit],
           [isdigit]]"

definition re_M :: "(char \<Rightarrow> bool) list list" where
  "re_M = [[in_range CHR ''0'' CHR ''5'', isdigit], [isdigit]]"

definition lit :: "char \<Rightarrow> string \<Rightarrow> string list" where
  "lit c s = (case s of [] \<Rightarrow> [] | x # r \<Rightarrow> if x = c then [r] else [])"

text \<open>\<open>\s+\<close> is greedy: the longest run of whitespace first, then the shorter ones.\<close>

fun ws_plus :: "string \<Rightarrow> string list" where
  "ws_plus [] = []"
| "ws_plus (c # cs) = (if isspace c then ws_plus cs @ [cs] else [])"

definition strptime_matches :: "string \<Rightarrow> ((string \<times> string \<times> string \<times> string \<times> string) \<times> string) list" where
  "strptime_matches s =
     [((d, m, Y, H, M), r10).
        (d, r1) \<leftarrow> alternatives re_d s, r2 \<leftarrow> lit CHR ''.'' r1,
        (m, r3) \<leftarrow> alternatives re_m r2, r4 \<leftarrow> lit CHR ''.'' r3,
        (Y, r5) \<leftarrow> alternatives re_Y r4, r6 \<leftarrow> lit CHR ''.'' r5,
        r7 \<leftarrow> ws_plus r6,
        (H, r8) \<leftarrow> alternatives re_H r7, r9 \<leftarrow> lit CHR '':'' r8,
        (M, r10) \<leftarrow> alternatives re_M r9]"

record datetime =
  year :: int
  month :: int
  day :: int
  hour :: int
  minute :: int

definition is_leap :: "int \<Rightarrow> bool" where
  "is_leap y = (y mod 4 = 0 \<and> (y mod 100 \<noteq> 0 \<or> y mod 400 = 0))"

definition days_in_month :: "int \<Rightarrow> int \<Rightarrow> int" where
  "days_in_month y m =
     (if m = 2 then (if is_leap y then 29 else 28)
      else if m = 4 \<or> m = 6 \<or> m = 9 \<or> m = 11 then 30 else 31)"

text \<open>The \<open>datetime\<close> constructor, with its range checks.\<close>

definition mk_datetime :: "int \<Rightarrow> int \<Rightarrow> int \<Rightarrow> int \<Rightarrow> int \<Rightarrow> exn + datetime" where
  "mk_datetime Y m d H M =
     (if 1 \<le> Y \<and> Y \<le> 9999 \<and> 1 \<le> m \<and> m \<le> 12 \<and> 1 \<le> d \<and> d \<le> days_in_month Y m
         \<and> 0 \<le> H \<and> H \<le> 23 \<and> 0 \<le> M \<and> M \<le> 59
      then Inr \<lparr>year = Y, month = m, day = d, hour = H, minute = M\<rparr>
      else Inl ValueError)"

text \<open>The five groups go through \<open>int\<close>; an argument that is \<open>None\<close> raises \<open>TypeError\<close>.\<close>

definition strptime :: "string option \<Rightarrow> exn + datetime" where
  "strptime date_str =
     (case date_str of
        None \<Rightarrow> Inl TypeError
      | Some s \<Rightarrow>
          (case strptime_matches s of
             [] \<Rightarrow> Inl ValueError
           | ((d, m, Y, H, M), rest) # _ \<Rightarrow>
               if rest \<noteq> [] then Inl ValueError
               else (case (py_int Y, py_int m, py_int d, py_int H, py_int M) of
                       (Inr Y', Inr m', Inr d', Inr H', Inr M') \<Rightarrow> mk_datetime Y' m' d' H' M'
                     | _ \<Rightarrow> Inl ValueError)))"

text \<open>\<open>str(n)\<close> for an integer: its decimal digits, without padding.\<close>

fun str_nat :: "nat \<Rightarrow> string" where
  "str_nat n = (if n < 10 then [digit_char n] else str_nat (n div 10) @ [digit_char n])"

declare str_nat.simps [simp del]

definition str_int :: "int \<Rightarrow> string" where
  "str_int i = (if i < 0 then ''-'' @ str_nat (nat (- i)) else str_nat (nat i))"

text \<open>
  \<open>strftime\<close>: \<open>%m\<close>, \<open>%d\<close>, \<open>%H\<close> and \<open>%M\<close> are zero-padded to two digits. \<open>%Y\<close>
  is the year as the C library writes it: glibc, which CPython 3.11 calls on Linux, writes
  its decimal digits without padding (\<open>999\<close> for the year 999; other platforms pad to four
  digits, which is the same from the year 1000 on).
\<close>

definition zfill2 :: "int \<Rightarrow> string" where
  "zfill2 n = [digit_char (nat n div 10), digit_char (nat n)]"

definition strftime_date :: "datetime \<Rightarrow> string" where
  "strftime_date dt = str_int (year dt) @ ''-'' @ zfill2 (month dt) @ ''-'' @ zfill2 (day dt)"

definition strftime_time :: "datetime \<Rightarrow> string" where
  "strftime_time dt = zfill2 (hour dt) @ '':'' @ zfill2 (minute dt)"

definition format_date :: "string option \<Rightarrow> 'w state \<Rightarrow> (string \<times> string) \<times> 'w state" where
  "format_date date_str s =
     (case strptime date_str of
        Inr dt \<Rightarrow> ((strftime_date dt, strftime_time dt), s)
      | Inl e \<Rightarrow> ((''N/A'', ''N/A''), emit (LogError ''Date parsing error'') s))"

section \<open>extract_news_entry and fetch_page_content\<close>

definition base_url :: string where
  "base_url = ''https://www.tuzilastvobih.gov.ba/index.php''"

text \<open>The keys of the dictionary \<open>extract_news_entry\<close> returns, in its order.\<close>

definition entry_keys :: "string list" where
  "entry_keys =
     [''news_public_date'', ''news_public_time'', ''news_url'', ''news_heading'',
      ''news_heading_translated'', ''news_summary'', ''news_summary_translated'',
      ''news_details'', ''news_details_translated'']"

text \<open>
  The body of \<open>extract_news_entry\<close> sits in one \<open>try\<close> whose handler catches every
  \<open>Exception\<close>, logs it and returns \<open>None\<close>. The values of the dictionary display are
  evaluated in its order: the three \<open>safe_translate\<close> calls are made for the heading, then
  the summary, then the details.
\<close>

definition extract_news_entry :: "'w env \<Rightarrow> row \<Rightarrow> 'w state \<Rightarrow> entry option \<times> 'w state" where
  "extract_news_entry env r s =
     (let news_heading = unidecode env (str_strip (str_join '' '' (h3_texts r))) in
      case h3_href r of
        None \<Rightarrow> (None, s)
      | Some news_url \<Rightarrow>
          if news_url = [] then (None, s)
          else
            (let full_url = base_url @ news_url in
             case call_get env full_url s of
               (Inl e, s1) \<Rightarrow> (None, emit (LogError ''Error extracting news entry'') s1)
             | (Inr response, s1) \<Rightarrow>
                 (case raise_for_status response of
                    Inl e \<Rightarrow> (None, emit (LogError ''Error extracting news entry'') s1)
                  | Inr u \<Rightarrow>
                      (let detailed_page = detail_page env (resp_text response) in
                       case format_date (date_text detailed_page) s1 of
                         ((news_date, news_time), s2) \<Rightarrow>
                           (let news_summary =
                                  re_sub_ws (str_strip (str_join '' '' (intro_texts detailed_page)));
                                news_details =
                                  re_sub_ws (str_strip (str_join '' '' (content_texts detailed_page)))
                            in case safe_translate env news_heading 3000 s2 of
                                 (heading_translated, s3) \<Rightarrow>
                                   (case safe_translate env news_summary 3000 s3 of
                                      (summary_translated, s4) \<Rightarrow>
                                        (case safe_translate env news_details 3000 s4 of
                                           (details_translated, s5) \<Rightarrow>
                                             (Some [(''news_public_date'', news_date),
                                                    (''news_public_time'', news_time),
                                                    (''news_url'', full_url),
                                                    (''news_heading'', news_heading),
                                                    (''news_heading_translated'', heading_translated),
                                                    (''news_summary'', news_summary),
                                                    (''news_summary_translated'', summary_translated),
                                                    (''news_details'', news_details),
                                                    (''news_details_translated'', details_translated)],
                                              s5))))))))"

text \<open>The loop over \<open>news_rows\<close>; \<open>if entry\<close> holds for a dictionary that is not empty.\<close>

fun collect_entries ::
  "'w env \<Rightarrow> row list \<Rightarrow> entry list \<Rightarrow> 'w state \<Rightarrow> entry list \<times> 'w state" where
  "collect_entries env [] page_entries s = (page_entries, s)"
| "collect_entries env (r # rows) page_entries s =
     (case extract_news_entry env r s of
        (None, s1) \<Rightarrow> collect_entries env rows page_entries s1
      | (Some entry, s1) \<Rightarrow>
          collect_entries env rows
            (if entry \<noteq> [] then page_entries @ [entry] else page_entries) s1)"

definition page_url :: "int \<Rightarrow> string" where
  "page_url page_num = base_url @ ''?opcija=arhiva&strana='' @ str_int page_num @ ''&jezik=b''"

text \<open>
  \<open>fetch_page_content\<close> catches \<open>requests.RequestException\<close> only: any other exception of
  \<open>requests.get\<close> leaves the function.
\<close>

definition fetch_page_content :: "'w env \<Rightarrow> int \<Rightarrow> 'w state \<Rightarrow> (exn + entry list) \<times> 'w state" where
  "fetch_page_content env page_num s =
     (case call_get env (page_url page_num) s of
        (Inl e, s1) \<Rightarrow>
          if is_RequestException e then (Inr [], emit (LogError ''Request error on page'') s1)
          else (Inl e, s1)
      | (Inr response, s1) \<Rightarrow>
          (case raise_for_status response of
             Inl e \<Rightarrow> (Inr [], emit (LogError ''Request error on page'') s1)
           | Inr u \<Rightarrow>
               (let rows = news_rows env (resp_text response) in
                if rows = [] then (Inr [], s1)
                else (case collect_entries env rows [] s1 of
                        (page_entries, s2) \<Rightarrow> (Inr page_entries, s2)))))"

section \<open>scrape_all_pages, save_to_excel and main\<close>

text \<open>
  The page tasks run in the threads of the pool. The driver sees of them the value each
  future resolves to, \<open>results page\<close> (\<open>Inl\<close> when the task raised, which \<open>future.result()\<close>
  raises again), and the order in which \<open>as_completed\<close> yields the futures, \<open>completed\<close>:
  both are parameters, so that a statement about the driver holds for every schedule.
  The state and the trace of the driver are those of the main thread; what the tasks do to
  the world is not part of them. The pool is created with a positive \<open>max_workers\<close>, as
  \<open>main\<close> does. The loop over \<open>as_completed(futures)\<close>:
\<close>

fun as_completed_loop :: "(exn + entry list) list \<Rightarrow> entry list \<Rightarrow> exn + entry list" where
  "as_completed_loop [] all_entries = Inr all_entries"
| "as_completed_loop (result # futures) all_entries =
     (case result of
        Inl e \<Rightarrow> Inl e
      | Inr page_entries \<Rightarrow>
          if page_entries = [] then Inr all_entries
          else as_completed_loop futures (all_entries @ page_entries))"

text \<open>
  \<open>as_completed\<close> yields every submitted future once: a completion order of a run over
  \<open>max_pages\<close> pages is a permutation of the pages \<open>1\<close> to \<open>max_pages\<close>.
\<close>

definition completion_order :: "int \<Rightarrow> int list \<Rightarrow> bool" where
  "completion_order max_pages completed = (sort completed = [1..max_pages])"

definition first_url :: string where
  "first_url = ''https://www.tuzilastvobih.gov.ba/index.php?opcija=arhiva&strana=1&jezik=b''"

text \<open>
  \<open>scrape_all_pages\<close>: the first request is neither guarded by a \<open>try\<close> nor followed by
  \<open>raise_for_status\<close>; \<open>int(total_page)\<close> raises \<open>TypeError\<close> on \<open>None\<close>. The trace gets one
  \<open>Submit\<close> per page of \<open>range(1, max_pages + 1)\<close>. Leaving the \<open>with\<close> block waits for
  every submitted task; the code cancels none.
\<close>

definition scrape_all_pages ::
  "'w env \<Rightarrow> (int \<Rightarrow> exn + entry list) \<Rightarrow> int list \<Rightarrow> entry list \<Rightarrow> 'w state
     \<Rightarrow> (exn + entry list) \<times> 'w state" where
  "scrape_all_pages env results completed all_entries s =
     (case call_get env first_url s of
        (Inl e, s1) \<Rightarrow> (Inl e, s1)
      | (Inr response, s1) \<Rightarrow>
          (case pagination env (resp_text response) of
             None \<Rightarrow> (Inl TypeError, s1)
           | Some total_page \<Rightarrow>
               (case py_int total_page of
                  Inl e \<Rightarrow> (Inl e, s1)
                | Inr max_pages \<Rightarrow>
                    (let s2 = (fst s1, snd s1 @ map Submit [1..max_pages]) in
                     case as_completed_loop (map results completed) all_entries of
                       Inl e \<Rightarrow> (Inl e, s2)
                     | Inr entries \<Rightarrow>
                         (Inr entries,
                          emit (LogInfo ''Total scraping time'')
                            (emit (LogInfo ''Total entries scraped'') s2))))))"

text \<open>
  \<open>save_to_excel\<close>: the call of \<open>to_excel\<close> is recorded in the trace; when it raises,
  the exception leaves the function before the log record.
\<close>

definition save_to_excel ::
  "'w env \<Rightarrow> entry list \<Rightarrow> string \<Rightarrow> 'w state \<Rightarrow> (exn + unit) \<times> 'w state" where
  "save_to_excel env all_entries filename s =
     (case to_excel env filename all_entries of
        Inl e \<Rightarrow> (Inl e, emit (ToExcel filename all_entries) s)
      | Inr u \<Rightarrow> (Inr (), emit (LogInfo ''Saved'') (emit (ToExcel filename all_entries) s)))"

text \<open>\<open>main\<close> starts from a new scraper, whose \<open>all_entries\<close> is empty.\<close>

definition main ::
  "'w env \<Rightarrow> (int \<Rightarrow> exn + entry list) \<Rightarrow> int list \<Rightarrow> 'w state \<Rightarrow> (exn + unit) \<times> 'w state" where
  "main env results completed s =
     (case scrape_all_pages env results completed [] s of
        (Inl e, s1) \<Rightarrow> (Inl e, s1)
      | (Inr all_entries, s1) \<Rightarrow> save_to_excel env all_entries ''tuzilastvobih_gov.xlsx'' s1)"

section \<open>Notions used in the statements\<close>

text \<open>A word: not empty and free of whitespace, as \<open>str.split()\<close> returns them.\<close>

definition word_ok :: "string \<Rightarrow> bool" where
  "word_ok w = (w \<noteq> [] \<and> (\<forall>c\<in>set w. \<not> isspace c))"

text \<open>
  What the translation service answers when it is called on the chunks one after the other,
  starting in world \<open>w\<close>, and what stands for a chunk given the answer to its call.
\<close>

fun chunk_outcomes :: "'w env \<Rightarrow> string list \<Rightarrow> 'w \<Rightarrow> (exn + string) list" where
  "chunk_outcomes env [] w = []"
| "chunk_outcomes env (c # cs) w =
     (case translate_text env c w of (r, w') \<Rightarrow> r # chunk_outcomes env cs w')"

definition or_original :: "string \<Rightarrow> exn + string \<Rightarrow> string" where
  "or_original chunk r = (case r of Inl e \<Rightarrow> chunk | Inr t \<Rightarrow> t)"

text \<open>
  What \<open>extract_news_entry\<close> returns for the rows of a page when it is called on them one
  after the other, each call in the state the call before left, starting in \<open>s\<close>; the
  state after the last call; and the entries among a list of such returns.
\<close>

fun row_outcomes :: "'w env \<Rightarrow> row list \<Rightarrow> 'w state \<Rightarrow> entry option list" where
  "row_outcomes env [] s = []"
| "row_outcomes env (r # rows) s =
     (case extract_news_entry env r s of (x, s1) \<Rightarrow> x # row_outcomes env rows s1)"

fun rows_state :: "'w env \<Rightarrow> row list \<Rightarrow> 'w state \<Rightarrow> 'w state" where
  "rows_state env [] s = s"
| "rows_state env (r # rows) s = rows_state env rows (snd (extract_news_entry env r s))"

fun some_entries :: "entry option list \<Rightarrow> entry list" where
  "some_entries [] = []"
| "some_entries (None # xs) = some_entries xs"
| "some_entries (Some e # xs) = e # some_entries xs"

text \<open>
  The records of the tasks completed before the first task without records, where
  \<open>recs page\<close> are the records of the task of \<open>page\<close>.
\<close>

definition collected :: "(int \<Rightarrow> entry list) \<Rightarrow> int list \<Rightarrow> entry list" where
  "collected recs completed = concat (takeWhile (\<lambda>es. es \<noteq> []) (map recs completed))"

section \<open>A small site\<close>

text \<open>
  An environment to run the model on: an archive of three pages. Page 1 lists one article
  and one row without a link, the request for page 2 times out, page 3 has no rows. The
  article's date is not in the expected format, and the translation service knows two
  phrases and raises on everything else. Every spreadsheet is written. The world has no
  state.
\<close>

definition stub_get :: "string \<Rightarrow> unit \<Rightarrow> (exn + response) \<times> unit" where
  "stub_get url w =
     (if url = page_url 1 then (Inr \<lparr>status_code = 200, resp_text = ''list''\<rparr>, w)
      else if url = page_url 2 then (Inl Timeout, w)
      else if url = page_url 3 then (Inr \<lparr>status_code = 200, resp_text = ''none''\<rparr>, w)
      else if url = base_url @ ''?id=7''
        then (Inr \<lparr>status_code = 200, resp_text = ''article''\<rparr>, w)
      else (Inr \<lparr>status_code = 404, resp_text = []\<rparr>, w))"

definition stub_translate :: "string \<Rightarrow> unit \<Rightarrow> (exn + string) \<times> unit" where
  "stub_translate t w =
     (if t = ''Vijest'' then (Inr ''News'', w)
      else if t = ''Vijest o'' then (Inr ''News about'', w)
      else (Inl OtherException, w))"

definition stub_env :: "unit env" where
  "stub_env =
     \<lparr>requests_get = stub_get,
      translate_text = stub_translate,
      unidecode = (\<lambda>s. s),
      news_rows = (\<lambda>t. if t = ''list''
         then [\<lparr>h3_texts = [''Vijest''], h3_href = Some ''?id=7''\<rparr>,
               \<lparr>h3_texts = [''Bez linka''], h3_href = None\<rparr>]
         else []),
      detail_page = (\<lambda>t. \<lparr>date_text = Some ''jucer'', intro_texts = [''Kratak'', '' opis''],
         content_texts = [''Tekst  vijesti'']\<rparr>),
      pagination = (\<lambda>t. if t = ''list'' then Some ''3'' else None),
      to_excel = (\<lambda>filename rows. Inr ())\<rparr>"

text \<open>The value of each page's future when every task starts with an empty trace.\<close>

definition stub_results :: "int \<Rightarrow> exn + entry list" where
  "stub_results p = fst (fetch_page_content stub_env p ((), []))"

text \<open>
  The same site when the server answers the request for page 1 with status 500 and the
  body it has otherwise, page count included.
\<close>

definition stub_env_500 :: "unit env" where
  "stub_env_500 =
     stub_env\<lparr>requests_get := (\<lambda>url w.
        if url = page_url 1 then (Inr \<lparr>status_code = 500, resp_text = ''list''\<rparr>, w)
        else stub_get url w)\<rparr>"

definition stub_results_500 :: "int \<Rightarrow> exn + entry list" where
  "stub_results_500 p = fst (fetch_page_content stub_env_500 p ((), []))"

text \<open>
  The entry of the one article of the site, and what extracting it adds to the trace.
\<close>

definition stub_entry :: entry where
  "stub_entry =
     [(''news_public_date'', ''N/A''), (''news_public_time'', ''N/A''),
      (''news_url'', ''https://www.tuzilastvobih.gov.ba/index.php?id=7''),
      (''news_heading'', ''Vijest''), (''news_heading_translated'', ''News''),
      (''news_summary'', ''Kratak opis''), (''news_summary_translated'', ''Kratak opis''),
      (''news_details'', ''Tekst vijesti''), (''news_details_translated'', ''Tekst vijesti'')]"

definition stub_article_trace :: "event list" where
  "stub_article_trace =
     [HttpGet ''https://www.tuzilastvobih.gov.ba/index.php?id=7'',
      LogError ''Date parsing error'', Translate ''Vijest'', Translate ''Kratak opis'',
      LogError ''Translation error'', Translate ''Tekst vijesti'',
      LogError ''Translation error'']"

section \<open>Splitting, joining and stripping\<close>

lemma split_acc_ok:
  "(\<forall>c\<in>set cur. \<not> isspace c) \<Longrightarrow> \<forall>w\<in>set (split_acc cur s). word_ok w"
proof (induction s arbitrary: cur)
  case Nil
  then show ?case by (simp add: word_ok_def)
next
  case (Cons c s)
  show ?case
    using Cons.IH [of "[]"] Cons.IH [of "cur @ [c]"] Cons.prems
    by (simp add: word_ok_def)
qed

lemma str_split_ok: "\<forall>w\<in>set (str_split s). word_ok w"
  using split_acc_ok [of "[]" s] by (simp add: str_split_def)

lemma split_acc_word:
  "(\<forall>c\<in>set w. \<not> isspace c) \<Longrightarrow> split_acc cur (w @ s) = split_acc (cur @ w) s"
  by (induction w arbitrary: cur) auto

lemma space_isspace: "isspace (CHR '' '')"
  by (simp add: isspace_def)

lemma str_split_join:
  "(\<forall>w\<in>set g. word_ok w) \<Longrightarrow> str_split (str_join '' '' g) = g"
proof (induction "'' ''" g rule: str_join.induct)
  case 1
  then show ?case by (simp add: str_split_def)
next
  case (2 x)
  then show ?case
    using split_acc_word [of x "[]" "[]"] by (simp add: str_split_def word_ok_def)
next
  case (3 x y ys)
  then have "str_split (str_join '' '' (y # ys)) = y # ys" by simp
  moreover have "split_acc [] (x @ '' '' @ str_join '' '' (y # ys))
      = split_acc x ('' '' @ str_join '' '' (y # ys))"
    using 3 split_acc_word [of x "[]"] by (simp add: word_ok_def)
  ultimately show ?case
    using 3 by (simp add: str_split_def word_ok_def space_isspace)
qed

lemma str_join_snoc:
  "str_join sep (g @ [w]) = (if g = [] then w else str_join sep g @ sep @ w)"
  by (induction sep g rule: str_join.induct) auto

lemma str_join_eq_Nil:
  "(\<forall>w\<in>set g. word_ok w) \<Longrightarrow> str_join sep g = [] \<longleftrightarrow> g = []"
  by (induction sep g rule: str_join.induct) (auto simp: word_ok_def)

lemma str_strip_id:
  "s \<noteq> [] \<Longrightarrow> \<not> isspace (hd s) \<Longrightarrow> \<not> isspace (last s) \<Longrightarrow> str_strip s = s"
proof -
  assume a: "s \<noteq> []" "\<not> isspace (hd s)" "\<not> isspace (last s)"
  then have "dropWhile isspace s = s" by (cases s) auto
  moreover have "dropWhile isspace (rev s) = rev s"
    using a by (cases "rev s") (auto simp: last_rev [symmetric] hd_rev)
  ultimately show ?thesis by (simp add: str_strip_def)
qed

lemma str_join_hd:
  "(\<forall>w\<in>set g. word_ok w) \<Longrightarrow> g \<noteq> [] \<Longrightarrow> \<not> isspace (hd (str_join '' '' g))"
  by (induction "'' ''" g rule: str_join.induct) (auto simp: word_ok_def)

lemma str_join_last:
  "(\<forall>w\<in>set g. word_ok w) \<Longrightarrow> g \<noteq> [] \<Longrightarrow> \<not> isspace (last (str_join '' '' g))"
  by (induction "'' ''" g rule: str_join.induct) (auto simp: word_ok_def str_join_eq_Nil)

lemma str_strip_join:
  "(\<forall>w\<in>set g. word_ok w) \<Longrightarrow> str_strip (str_join '' '' g) = str_join '' '' g"
proof (cases "g = []")
  case True
  then show ?thesis by (simp add: str_strip_def)
next
  case False
  assume ok: "\<forall>w\<in>set g. word_ok w"
  then show ?thesis
    using False str_join_hd str_join_last str_join_eq_Nil [of g "'' ''"]
    by (intro str_strip_id) auto
qed

lemma length_str_strip: "length (str_strip s) \<le> length s"
proof -
  have "length (dropWhile isspace (rev (dropWhile isspace s))) \<le> length (rev (dropWhile isspace s))"
    by (rule length_dropWhile_le)
  also have "\<dots> \<le> length s" by (simp add: length_dropWhile_le)
  finally show ?thesis by (simp add: str_strip_def)
qed

lemma str_strip_bound:
  assumes "0 \<le> cs" "cur = [] \<or> int (length cur) \<le> cs"
  shows "int (length (str_strip cur)) \<le> cs"
proof (cases "cur = []")
  case True
  then show ?thesis using assms(1) by (simp add: str_strip_def)
next
  case False
  then have "int (length cur) \<le> cs" using assms(2) by simp
  moreover have "int (length (str_strip cur)) \<le> int (length cur)"
    using length_str_strip [of cur] by simp
  ultimately show ?thesis by linarith
qed

lemma chunk_loop_len:
  "(\<forall>w\<in>set ws. int (length w) \<le> cs) \<Longrightarrow> (\<forall>c\<in>set chunks. int (length c) \<le> cs) \<Longrightarrow>
   cur = [] \<or> int (length cur) \<le> cs \<Longrightarrow>
   (\<forall>c\<in>set (fst (chunk_loop cs ws chunks cur)). int (length c) \<le> cs) \<and>
   (snd (chunk_loop cs ws chunks cur) = [] \<or> int (length (snd (chunk_loop cs ws chunks cur))) \<le> cs)"
proof (induction ws arbitrary: chunks cur)
  case Nil
  then show ?case by simp
next
  case (Cons w ws)
  have w: "int (length w) \<le> cs" and ws: "\<forall>w\<in>set ws. int (length w) \<le> cs"
    using Cons.prems(1) by auto
  have cs0: "0 \<le> cs" using w by linarith
  have strip: "int (length (str_strip cur)) \<le> cs"
    using cs0 Cons.prems(3) by (rule str_strip_bound)
  show ?case
  proof (cases "int (length cur) + int (length w) + 1 > cs")
    case True
    have "\<forall>c\<in>set (chunks @ [str_strip cur]). int (length c) \<le> cs"
      using Cons.prems(2) strip by simp
    from Cons.IH [OF ws this, of w] w True show ?thesis by simp
  next
    case False
    let ?cur = "if cur \<noteq> [] then cur @ '' '' @ w else w"
    have "?cur = [] \<or> int (length ?cur) \<le> cs"
      using False w by simp
    from Cons.IH [OF ws Cons.prems(2) this] False show ?thesis by simp
  qed
qed

section \<open>The chunks of safe_translate\<close>

lemma chunk_loop_groups:
  "(\<forall>w\<in>set ws. word_ok w) \<Longrightarrow> (\<forall>w\<in>set g. word_ok w) \<Longrightarrow>
   \<exists>gs' g'. chunk_loop cs ws chunks (str_join '' '' g) =
               (chunks @ map (str_join '' '') gs', str_join '' '' g')
     \<and> concat gs' @ g' = g @ ws \<and> (\<forall>w\<in>set g'. word_ok w)"
proof (induction ws arbitrary: chunks g)
  case Nil
  then show ?case by (intro exI [of _ "[]"] exI [of _ g]) simp
next
  case (Cons w ws)
  have okw: "word_ok w" and okws: "\<forall>w\<in>set ws. word_ok w" using Cons.prems by auto
  show ?case
  proof (cases "int (length (str_join '' '' g)) + int (length w) + 1 > cs")
    case True
    from Cons.IH [of "[w]" "chunks @ [str_join '' '' g]"] okw okws
    obtain gs' g' where
      h: "chunk_loop cs ws (chunks @ [str_join '' '' g]) (str_join '' '' [w]) =
            ((chunks @ [str_join '' '' g]) @ map (str_join '' '') gs', str_join '' '' g')"
         "concat gs' @ g' = [w] @ ws" "\<forall>w\<in>set g'. word_ok w"
      by auto
    show ?thesis
      using True h Cons.prems(2)
      by (intro exI [of _ "g # gs'"] exI [of _ g']) (simp add: str_strip_join)
  next
    case False
    from Cons.IH [of "g @ [w]" chunks] okw okws Cons.prems(2)
    obtain gs' g' where
      h: "chunk_loop cs ws chunks (str_join '' '' (g @ [w])) =
            (chunks @ map (str_join '' '') gs', str_join '' '' g')"
         "concat gs' @ g' = (g @ [w]) @ ws" "\<forall>w\<in>set g'. word_ok w"
      by auto
    show ?thesis
      using False h Cons.prems(2) str_join_eq_Nil [of g "'' ''"]
      by (intro exI [of _ gs'] exI [of _ g']) (auto simp: str_join_snoc)
  qed
qed

lemma make_chunks_groups:
  "\<exists>groups. concat groups = str_split txt \<and> make_chunks cs txt = map (str_join '' '') groups
     \<and> (\<forall>g\<in>set groups. \<forall>w\<in>set g. word_ok w)"
proof -
  from chunk_loop_groups [of "str_split txt" "[]" cs "[]"] str_split_ok [of "txt"]
  obtain gs' g' where
    h: "chunk_loop cs (str_split txt) [] [] = (map (str_join '' '') gs', str_join '' '' g')"
       "concat gs' @ g' = str_split txt" "\<forall>w\<in>set g'. word_ok w"
    by auto
  have ok: "\<forall>g\<in>set gs'. \<forall>w\<in>set g. word_ok w"
  proof (intro ballI)
    fix g w assume "g \<in> set gs'" "w \<in> set g"
    then have "w \<in> set (concat gs' @ g')" by auto
    then show "word_ok w" using h(2) str_split_ok [of "txt"] by simp
  qed
  show ?thesis
  proof (cases "g' = []")
    case True
    then show ?thesis
      using h ok by (intro exI [of _ gs']) (simp add: make_chunks_def)
  next
    case False
    then show ?thesis
      using h ok str_join_eq_Nil [of g' "'' ''"]
      by (intro exI [of _ "gs' @ [g']"]) (simp add: make_chunks_def str_strip_join)
  qed
qed

lemma make_chunks_words:
  "concat (map str_split (make_chunks cs txt)) = str_split txt"
proof -
  from make_chunks_groups [of "txt" cs] obtain groups where
    h: "concat groups = str_split txt" "make_chunks cs txt = map (str_join '' '') groups"
       "\<forall>g\<in>set groups. \<forall>w\<in>set g. word_ok w"
    by blast
  have "map str_split (map (str_join '' '') groups) = groups"
    using h(3) by (induction groups) (simp_all add: str_split_join)
  then show ?thesis using h by simp
qed

lemma make_chunks_len:
  "(\<forall>w\<in>set (str_split txt). int (length w) \<le> cs) \<Longrightarrow>
   \<forall>c\<in>set (make_chunks cs txt). int (length c) \<le> cs"
proof -
  assume a: "\<forall>w\<in>set (str_split txt). int (length w) \<le> cs"
  obtain chunks cur where e: "chunk_loop cs (str_split txt) [] [] = (chunks, cur)"
    by (cases "chunk_loop cs (str_split txt) [] []")
  from chunk_loop_len [of "str_split txt" cs "[]" "[]"] a e
  have h: "\<forall>c\<in>set chunks. int (length c) \<le> cs" "cur = [] \<or> int (length cur) \<le> cs"
    by auto
  have "cur \<noteq> [] \<Longrightarrow> int (length (str_strip cur)) \<le> cs"
    using h(2) length_str_strip [of cur] by linarith
  then show ?thesis using h e by (auto simp: make_chunks_def)
qed

section \<open>The small site, evaluated\<close>

lemma stub_env_simps:
  "translate_text stub_env = stub_translate" "requests_get stub_env = stub_get"
  "to_excel stub_env f rows = Inr ()"
  by (simp_all add: stub_env_def)

lemma stub_fields:
  "unidecode stub_env t = t"
  "news_rows stub_env ''list'' =
     [\<lparr>h3_texts = [''Vijest''], h3_href = Some ''?id=7''\<rparr>,
      \<lparr>h3_texts = [''Bez linka''], h3_href = None\<rparr>]"
  "news_rows stub_env ''none'' = []"
  "detail_page stub_env t = \<lparr>date_text = Some ''jucer'', intro_texts = [''Kratak'', '' opis''],
     content_texts = [''Tekst  vijesti'']\<rparr>"
  "pagination stub_env ''list'' = Some ''3''"
  by (simp_all add: stub_env_def)

lemma page_urls:
  "page_url 1 = ''https://www.tuzilastvobih.gov.ba/index.php?opcija=arhiva&strana=1&jezik=b''"
  "page_url 2 = ''https://www.tuzilastvobih.gov.ba/index.php?opcija=arhiva&strana=2&jezik=b''"
  "page_url 3 = ''https://www.tuzilastvobih.gov.ba/index.php?opcija=arhiva&strana=3&jezik=b''"
  "page_url 4 = ''https://www.tuzilastvobih.gov.ba/index.php?opcija=arhiva&strana=4&jezik=b''"
  by (simp_all add: page_url_def base_url_def str_int_def str_nat.simps digit_char_def)

lemma first_url_page: "first_url = page_url 1"
  by (simp add: first_url_def page_urls)

lemma stub_get_pages:
  "stub_get (page_url 1) () = (Inr \<lparr>status_code = 200, resp_text = ''list''\<rparr>, ())"
  "stub_get (page_url 2) () = (Inl Timeout, ())"
  "stub_get (page_url 3) () = (Inr \<lparr>status_code = 200, resp_text = ''none''\<rparr>, ())"
  "stub_get (page_url 4) () = (Inr \<lparr>status_code = 404, resp_text = []\<rparr>, ())"
  by (simp_all add: stub_get_def page_urls base_url_def)

lemma stub_get_article:
  "stub_get (base_url @ ''?id=7'') () = (Inr \<lparr>status_code = 200, resp_text = ''article''\<rparr>, ())"
  by (simp add: stub_get_def page_urls base_url_def)

lemma stub_call_get:
  "call_get stub_env (base_url @ ''?id=7'') ((), tr) =
     (Inr \<lparr>status_code = 200, resp_text = ''article''\<rparr>,
      ((), tr @ [HttpGet (base_url @ ''?id=7'')]))"
  "call_get stub_env (page_url 1) ((), tr) =
     (Inr \<lparr>status_code = 200, resp_text = ''list''\<rparr>, ((), tr @ [HttpGet (page_url 1)]))"
  "call_get stub_env (page_url 2) ((), tr) = (Inl Timeout, ((), tr @ [HttpGet (page_url 2)]))"
  "call_get stub_env (page_url 3) ((), tr) =
     (Inr \<lparr>status_code = 200, resp_text = ''none''\<rparr>, ((), tr @ [HttpGet (page_url 3)]))"
  by (simp_all add: call_get_def stub_env_simps stub_get_article stub_get_pages)

lemmas strptime_eval =
  strptime_def strptime_matches_def alternatives_def re_d_def re_m_def re_Y_def
  re_H_def re_M_def List.map_filter_simps lit_def in_range_def isdigit_def isspace_def py_int_def
  int_space_def int_max_str_digits_def digits_value_def digit_val_def mk_datetime_def
  days_in_month_def is_leap_def

lemma strptime_example:
  "strptime (Some ''05.03.2021. 14:30'') =
     Inr \<lparr>year = 2021, month = 3, day = 5, hour = 14, minute = 30\<rparr>"
  by (simp add: strptime_eval)

lemma strptime_failures:
  "strptime (Some ''not-a-date'') = Inl ValueError"
  "strptime (Some ''05.03.2021.'') = Inl ValueError"
  "strptime (Some ''31.02.2021. 14:30'') = Inl ValueError"
  "strptime (Some ''jucer'') = Inl ValueError"
  "strptime None = Inl TypeError"
  by (simp_all add: strptime_eval)

lemma stub_format_date:
  "format_date (Some ''jucer'') ((), tr) =
     ((''N/A'', ''N/A''), ((), tr @ [LogError ''Date parsing error'']))"
  by (simp add: format_date_def strptime_failures emit_def)

lemma stub_texts:
  "str_strip ''Vijest'' = ''Vijest''"
  "re_sub_ws (str_strip ''Kratak  opis'') = ''Kratak opis''"
  "re_sub_ws (str_strip ''Tekst  vijesti'') = ''Tekst vijesti''"
  by (simp_all add: str_strip_def isspace_def re_sub_ws_def)

lemma stub_safe_translate:
  "safe_translate stub_env ''Vijest'' 3000 ((), tr) =
     (''News'', ((), tr @ [Translate ''Vijest'']))"
  "safe_translate stub_env ''Kratak opis'' 3000 ((), tr) =
     (''Kratak opis'', ((), tr @ [Translate ''Kratak opis'', LogError ''Translation error'']))"
  "safe_translate stub_env ''Tekst vijesti'' 3000 ((), tr) =
     (''Tekst vijesti'',
      ((), tr @ [Translate ''Tekst vijesti'', LogError ''Translation error'']))"
  by (simp_all add: safe_translate_def call_translate_def stub_env_simps stub_translate_def
      emit_def)

lemma stub_extract:
  "extract_news_entry stub_env \<lparr>h3_texts = [''Vijest''], h3_href = Some ''?id=7''\<rparr> ((), tr) =
     (Some stub_entry,
      ((), tr @ [HttpGet (base_url @ ''?id=7''), LogError ''Date parsing error'',
         Translate ''Vijest'', Translate ''Kratak opis'', LogError ''Translation error'',
         Translate ''Tekst vijesti'', LogError ''Translation error'']))"
  unfolding extract_news_entry_def Let_def
  by (simp add: stub_call_get stub_fields stub_texts raise_for_status_def stub_format_date
      stub_safe_translate stub_entry_def)
     (simp add: base_url_def)

lemma stub_no_link:
  "extract_news_entry stub_env \<lparr>h3_texts = [''Bez linka''], h3_href = None\<rparr> s = (None, s)"
  by (simp add: extract_news_entry_def)

lemma stub_results_eval:
  "stub_results 1 = Inr [stub_entry]" "stub_results 2 = Inr []" "stub_results 3 = Inr []"
proof -
  note none = stub_no_link
  show "stub_results 1 = Inr [stub_entry]"
    by (simp add: stub_results_def fetch_page_content_def stub_call_get
        raise_for_status_def stub_fields stub_extract none stub_entry_def)
  show "stub_results 2 = Inr []"
    by (simp add: stub_results_def fetch_page_content_def stub_call_get)
  show "stub_results 3 = Inr []"
    by (simp add: stub_results_def fetch_page_content_def stub_call_get
        raise_for_status_def stub_fields)
qed

lemma stub_500_simps:
  "requests_get stub_env_500 (page_url 1) () =
     (Inr \<lparr>status_code = 500, resp_text = ''list''\<rparr>, ())"
  "requests_get stub_env_500 (page_url 2) () = (Inl Timeout, ())"
  "requests_get stub_env_500 (page_url 3) () =
     (Inr \<lparr>status_code = 200, resp_text = ''none''\<rparr>, ())"
  "pagination stub_env_500 ''list'' = Some ''3''"
  "news_rows stub_env_500 ''none'' = []"
  "to_excel stub_env_500 f rows = Inr ()"
  by (simp_all add: stub_env_500_def stub_env_def stub_get_def page_urls base_url_def)

lemma stub_results_500_eval:
  "stub_results_500 1 = Inr []" "stub_results_500 2 = Inr []" "stub_results_500 3 = Inr []"
  by (simp_all add: stub_results_500_def fetch_page_content_def call_get_def stub_500_simps
      raise_for_status_def)

lemma stub_pagination:
  "py_int ''3'' = Inr 3" "py_int ''>>'' = Inl ValueError"
  "py_int [CHR 0x1C, CHR ''2''] = Inl ValueError"
  by (simp_all add: py_int_def int_space_def int_max_str_digits_def isdigit_def
      digits_value_def digit_val_def)

lemma upto_3: "[1..3::int] = [1, 2, 3]"
  by (simp add: upto.simps)

lemma stub_orders:
  "completion_order 3 [1, 2, 3]" "completion_order 3 [2, 1, 3]"
  "completion_order 3 [3, 1, 2]" "completion_order 3 [1, 3, 2]"
  by (simp_all add: completion_order_def upto_3)

lemma make_chunks_two: "make_chunks 8 ''Vijest o sudu'' = [''Vijest o'', ''sudu'']"
  by (simp add: make_chunks_def str_split_def isspace_def str_strip_def)

lemma str_split_six:
  "str_split ''ab  cd efg hijk lmnopq r'' =
     [''ab'', ''cd'', ''efg'', ''hijk'', ''lmnopq'', ''r'']"
  by (simp add: str_split_def isspace_def)

lemma make_chunks_six:
  "make_chunks 10 ''ab  cd efg hijk lmnopq r'' = [''ab cd efg'', ''hijk'', ''lmnopq r'']"
  by (simp add: make_chunks_def str_split_six str_strip_def isspace_def)

section \<open>The loops\<close>

lemma translate_chunks_acc:
  "fst (translate_chunks env chunks acc s) =
     acc @ map2 or_original chunks (chunk_outcomes env chunks (fst s))"
proof (induction chunks arbitrary: acc s)
  case Nil
  then show ?case by simp
next
  case (Cons c cs)
  obtain r w' where tr: "translate_text env c (fst s) = (r, w')"
    by (cases "translate_text env c (fst s)")
  show ?case
  proof (cases r)
    case (Inl e)
    then show ?thesis
      using tr Cons.IH [of "acc @ [c]"
          "emit (LogError ''Translation error for chunk'') (w', snd s @ [Translate c])"]
      by (simp add: call_translate_def or_original_def emit_def)
  next
    case (Inr t)
    then show ?thesis
      using tr Cons.IH [of "acc @ [t]" "(w', snd s @ [Translate c])"]
      by (simp add: call_translate_def or_original_def)
  qed
qed

lemma as_completed_loop_takeWhile:
  "as_completed_loop (map Inr rs) acc = Inr (acc @ concat (takeWhile (\<lambda>es. es \<noteq> []) rs))"
  by (induction rs arbitrary: acc) simp_all

lemma as_completed_loop_first_empty:
  "(\<forall>q\<in>set before. results q = Inr (recs q) \<and> recs q \<noteq> []) \<Longrightarrow> results p = Inr [] \<Longrightarrow>
   as_completed_loop (map results (before @ p # after)) acc = Inr (acc @ concat (map recs before))"
  by (induction before arbitrary: acc) simp_all

lemma scrape_all_pages_ok:
  assumes "requests_get env first_url (fst s) = (Inr resp, w1)"
    and "pagination env (resp_text resp) = Some total_page"
    and "py_int total_page = Inr max_pages"
    and "as_completed_loop (map results completed) acc = Inr entries"
  shows "scrape_all_pages env results completed acc s =
           (Inr entries, (w1, snd s @ [HttpGet first_url] @ map Submit [1..max_pages] @
              [LogInfo ''Total entries scraped'', LogInfo ''Total scraping time'']))"
  using assms by (simp add: scrape_all_pages_def call_get_def emit_def)

lemma extract_no_link:
  "h3_href r = None \<or> h3_href r = Some [] \<Longrightarrow> extract_news_entry env r s = (None, s)"
  by (auto simp: extract_news_entry_def)

lemma collect_entries_skip:
  "extract_news_entry env r = (\<lambda>s. (None, s)) \<Longrightarrow>
   collect_entries env (rows1 @ r # rows2) acc s = collect_entries env (rows1 @ rows2) acc s"
proof (induction rows1 arbitrary: acc s)
  case Nil
  then show ?case by simp
next
  case (Cons a rows1)
  obtain x s1 where "extract_news_entry env a s = (x, s1)"
    by (cases "extract_news_entry env a s")
  then show ?case using Cons.IH [OF Cons.prems] by (cases x) simp_all
qed

lemma extract_keys:
  "fst (extract_news_entry env r s) = Some entry \<Longrightarrow> map fst entry = entry_keys"
  by (auto simp: extract_news_entry_def Let_def entry_keys_def
      split: option.splits if_splits prod.splits sum.splits)

lemma extract_emits:
  assumes "h3_href r = Some u" "u \<noteq> []"
    and "requests_get env (base_url @ u) (fst s) = (Inr resp, w1)"
    and "raise_for_status resp = Inr ()"
  shows "\<exists>entry. fst (extract_news_entry env r s) = Some entry"
  using assms
  by (auto simp: extract_news_entry_def Let_def call_get_def split: prod.splits)

lemma some_entries_append: "some_entries (xs @ ys) = some_entries xs @ some_entries ys"
  by (induction xs rule: some_entries.induct) simp_all

lemma row_outcomes_append:
  "row_outcomes env (rows1 @ rows2) s =
     row_outcomes env rows1 s @ row_outcomes env rows2 (rows_state env rows1 s)"
proof (induction rows1 arbitrary: s)
  case Nil
  then show ?case by simp
next
  case (Cons a rows1)
  obtain x s1 where "extract_news_entry env a s = (x, s1)"
    by (cases "extract_news_entry env a s")
  then show ?case using Cons.IH [of s1] by simp
qed

lemma rows_state_append:
  "rows_state env (rows1 @ rows2) s = rows_state env rows2 (rows_state env rows1 s)"
  by (induction rows1 arbitrary: s) simp_all

lemma collect_entries_outcomes:
  "collect_entries env rows acc s =
     (acc @ some_entries (row_outcomes env rows s), rows_state env rows s)"
proof (induction rows arbitrary: acc s)
  case Nil
  then show ?case by simp
next
  case (Cons a rows)
  obtain x s1 where e: "extract_news_entry env a s = (x, s1)"
    by (cases "extract_news_entry env a s")
  show ?case
  proof (cases x)
    case None
    then show ?thesis using e Cons.IH [of acc s1] by simp
  next
    case (Some entry)
    then have "map fst entry = entry_keys"
      using e extract_keys [of env a s entry] by simp
    then have "entry \<noteq> []" by (auto simp: entry_keys_def)
    then show ?thesis using e Some Cons.IH [of "acc @ [entry]" s1] by simp
  qed
qed

section \<open>Claims about fetch_page_content\<close>

text \<open>
  Claim C1, as amended. The claim says that the result of a page fetch tells a fetched page
  without listing rows (Empty) from a failed fetch (FetchError). The code returns the same
  value, the empty list, in both cases: for a page fetched with a status that
  \<open>raise_for_status\<close> accepts and no rows, for a request that raises a
  \<open>RequestException\<close>, and for a 4xx or 5xx status. Only the trace differs: a failure
  appends an error log record.
\<close>

theorem empty_and_failed_fetch_same_result:
  "(requests_get env (page_url p) (fst s) = (Inr resp, w1) \<and> raise_for_status resp = Inr ()
      \<and> news_rows env (resp_text resp) = []
      \<longrightarrow> fetch_page_content env p s = (Inr [], (w1, snd s @ [HttpGet (page_url p)])))
   \<and> (requests_get env (page_url p) (fst s) = (Inl e, w1) \<and> is_RequestException e
      \<longrightarrow> fetch_page_content env p s =
            (Inr [], (w1, snd s @ [HttpGet (page_url p), LogError ''Request error on page''])))
   \<and> (requests_get env (page_url p) (fst s) = (Inr resp, w1) \<and> raise_for_status resp = Inl e
      \<longrightarrow> fetch_page_content env p s =
            (Inr [], (w1, snd s @ [HttpGet (page_url p), LogError ''Request error on page''])))"
  by (simp add: fetch_page_content_def call_get_def emit_def)

theorem empty_and_failed_fetch_same_result_witness:
  "requests_get stub_env (page_url 3) () = (Inr \<lparr>status_code = 200, resp_text = ''none''\<rparr>, ())
   \<and> raise_for_status \<lparr>status_code = 200, resp_text = ''none''\<rparr> = Inr ()
   \<and> news_rows stub_env ''none'' = []
   \<and> fetch_page_content stub_env 3 ((), []) = (Inr [], ((), [HttpGet (page_url 3)]))
   \<and> requests_get stub_env (page_url 2) () = (Inl Timeout, ())
   \<and> is_RequestException Timeout
   \<and> fetch_page_content stub_env 2 ((), []) =
       (Inr [], ((), [HttpGet (page_url 2), LogError ''Request error on page'']))
   \<and> requests_get stub_env (page_url 4) () = (Inr \<lparr>status_code = 404, resp_text = []\<rparr>, ())
   \<and> raise_for_status \<lparr>status_code = 404, resp_text = []\<rparr> = Inl HTTPError
   \<and> fetch_page_content stub_env 4 ((), []) =
       (Inr [], ((), [HttpGet (page_url 4), LogError ''Request error on page'']))"
  using empty_and_failed_fetch_same_result
      [of stub_env 3 "((), [])" "\<lparr>status_code = 200, resp_text = ''none''\<rparr>" "()" Timeout]
    empty_and_failed_fetch_same_result
      [of stub_env 2 "((), [])" "\<lparr>status_code = 200, resp_text = ''none''\<rparr>" "()" Timeout]
    empty_and_failed_fetch_same_result
      [of stub_env 4 "((), [])" "\<lparr>status_code = 404, resp_text = []\<rparr>" "()" HTTPError]
  by (simp add: stub_env_simps stub_get_pages stub_fields raise_for_status_def)

text \<open>
  The claim as written fails on the small site: page 3 is fetched and has no rows, the
  request for page 2 times out, and \<open>fetch_page_content\<close> returns the same value for both.
\<close>

theorem empty_and_failed_fetch_counterexample:
  "requests_get stub_env (page_url 3) () = (Inr \<lparr>status_code = 200, resp_text = ''none''\<rparr>, ())
   \<and> news_rows stub_env ''none'' = []
   \<and> requests_get stub_env (page_url 2) () = (Inl Timeout, ())
   \<and> fst (fetch_page_content stub_env 3 ((), [])) = Inr []
   \<and> fst (fetch_page_content stub_env 2 ((), [])) = Inr []"
  by (simp add: fetch_page_content_def stub_call_get stub_env_simps stub_get_pages stub_fields
      raise_for_status_def)

section \<open>Claims about the driver\<close>

text \<open>
  Claim C2, as amended. A page whose listing fetch fails, by a \<open>RequestException\<close> or a
  4xx or 5xx status, gives zero records. When the request for the first page returns a
  response whose page count parses and no task raises, the run reaches the write of the
  spreadsheet with what was collected, and it ends without an exception when that write
  does not raise; when the write raises, the run ends with its exception. What is collected
  are the records of the tasks that completed before the first task without records, a
  failed page as well as an empty one, in completion order; the records of the tasks
  completing after it are not collected.
\<close>

theorem failed_page_run_completes:
  "(requests_get env (page_url p) w = (Inl e, w') \<and> is_RequestException e
      \<longrightarrow> fst (fetch_page_content env p (w, tr)) = Inr [])
   \<and> (requests_get env (page_url p) w = (Inr r, w') \<and> 400 \<le> status_code r \<and> status_code r < 600
      \<longrightarrow> fst (fetch_page_content env p (w, tr)) = Inr [])
   \<and> (requests_get env first_url (fst s) = (Inr resp, w1)
      \<and> pagination env (resp_text resp) = Some total_page \<and> py_int total_page = Inr max_pages
      \<longrightarrow> main env (\<lambda>q. Inr (recs q)) completed s =
            (case to_excel env ''tuzilastvobih_gov.xlsx'' (collected recs completed) of
               Inr u \<Rightarrow>
                 (Inr (), (w1, snd s @ [HttpGet first_url] @ map Submit [1..max_pages] @
                    [LogInfo ''Total entries scraped'', LogInfo ''Total scraping time'',
                     ToExcel ''tuzilastvobih_gov.xlsx'' (collected recs completed),
                     LogInfo ''Saved'']))
             | Inl x \<Rightarrow>
                 (Inl x, (w1, snd s @ [HttpGet first_url] @ map Submit [1..max_pages] @
                    [LogInfo ''Total entries scraped'', LogInfo ''Total scraping time'',
                     ToExcel ''tuzilastvobih_gov.xlsx'' (collected recs completed)]))))"
proof (intro conjI impI)
  assume "requests_get env (page_url p) w = (Inl e, w') \<and> is_RequestException e"
  then show "fst (fetch_page_content env p (w, tr)) = Inr []"
    by (simp add: fetch_page_content_def call_get_def)
next
  assume "requests_get env (page_url p) w = (Inr r, w') \<and> 400 \<le> status_code r
    \<and> status_code r < 600"
  then show "fst (fetch_page_content env p (w, tr)) = Inr []"
    by (simp add: fetch_page_content_def call_get_def raise_for_status_def)
next
  assume a: "requests_get env first_url (fst s) = (Inr resp, w1)
      \<and> pagination env (resp_text resp) = Some total_page \<and> py_int total_page = Inr max_pages"
  have "as_completed_loop (map (\<lambda>q. Inr (recs q)) completed) [] = Inr (collected recs completed)"
    using as_completed_loop_takeWhile [of "map recs completed" "[]"]
    by (simp add: comp_def collected_def)
  with a have "scrape_all_pages env (\<lambda>q. Inr (recs q)) completed [] s =
      (Inr (collected recs completed),
       (w1, snd s @ [HttpGet first_url] @ map Submit [1..max_pages] @
              [LogInfo ''Total entries scraped'', LogInfo ''Total scraping time'']))"
    by (intro scrape_all_pages_ok [where resp = resp and total_page = total_page]) simp_all
  then show "main env (\<lambda>q. Inr (recs q)) completed s =
            (case to_excel env ''tuzilastvobih_gov.xlsx'' (collected recs completed) of
               Inr u \<Rightarrow>
                 (Inr (), (w1, snd s @ [HttpGet first_url] @ map Submit [1..max_pages] @
                    [LogInfo ''Total entries scraped'', LogInfo ''Total scraping time'',
                     ToExcel ''tuzilastvobih_gov.xlsx'' (collected recs completed),
                     LogInfo ''Saved'']))
             | Inl x \<Rightarrow>
                 (Inl x, (w1, snd s @ [HttpGet first_url] @ map Submit [1..max_pages] @
                    [LogInfo ''Total entries scraped'', LogInfo ''Total scraping time'',
                     ToExcel ''tuzilastvobih_gov.xlsx'' (collected recs completed)])))"
    by (simp add: main_def save_to_excel_def emit_def split: sum.splits)
qed

theorem failed_page_run_completes_witness:
  "requests_get stub_env (page_url 2) () = (Inl Timeout, ()) \<and> is_RequestException Timeout
   \<and> fst (fetch_page_content stub_env 2 ((), [])) = Inr []
   \<and> requests_get stub_env (page_url 4) () = (Inr \<lparr>status_code = 404, resp_text = []\<rparr>, ())
   \<and> fst (fetch_page_content stub_env 4 ((), [])) = Inr []
   \<and> requests_get stub_env first_url () = (Inr \<lparr>status_code = 200, resp_text = ''list''\<rparr>, ())
   \<and> pagination stub_env ''list'' = Some ''3'' \<and> py_int ''3'' = Inr 3
   \<and> completion_order 3 [1, 2, 3]
   \<and> collected (\<lambda>q. if q = 1 then [stub_entry] else []) [1, 2, 3] = [stub_entry]
   \<and> to_excel stub_env ''tuzilastvobih_gov.xlsx'' [stub_entry] = Inr ()
   \<and> main stub_env (\<lambda>q. Inr (if q = 1 then [stub_entry] else [])) [1, 2, 3] ((), []) =
       (Inr (), ((), [HttpGet first_url, Submit 1, Submit 2, Submit 3,
          LogInfo ''Total entries scraped'', LogInfo ''Total scraping time'',
          ToExcel ''tuzilastvobih_gov.xlsx'' [stub_entry], LogInfo ''Saved'']))
   \<and> to_excel (stub_env\<lparr>to_excel := \<lambda>f rows. Inl OtherException\<rparr>)
        ''tuzilastvobih_gov.xlsx'' [stub_entry] = Inl OtherException
   \<and> main (stub_env\<lparr>to_excel := \<lambda>f rows. Inl OtherException\<rparr>)
        (\<lambda>q. Inr (if q = 1 then [stub_entry] else [])) [1, 2, 3] ((), []) =
       (Inl OtherException, ((), [HttpGet first_url, Submit 1, Submit 2, Submit 3,
          LogInfo ''Total entries scraped'', LogInfo ''Total scraping time'',
          ToExcel ''tuzilastvobih_gov.xlsx'' [stub_entry]]))"
  using failed_page_run_completes [of stub_env 2 "()" Timeout "()" "[]"
      "\<lparr>status_code = 404, resp_text = []\<rparr>" "((), [])"
      "\<lparr>status_code = 200, resp_text = ''list''\<rparr>" "()" "''3''" 3
      "\<lambda>q. if q = 1 then [stub_entry] else []" "[1, 2, 3]"]
    failed_page_run_completes [of stub_env 4 "()" Timeout "()" "[]"
      "\<lparr>status_code = 404, resp_text = []\<rparr>" "((), [])"
      "\<lparr>status_code = 200, resp_text = ''list''\<rparr>" "()" "''3''" 3
      "\<lambda>q. if q = 1 then [stub_entry] else []" "[1, 2, 3]"]
    failed_page_run_completes [of "stub_env\<lparr>to_excel := \<lambda>f rows. Inl OtherException\<rparr>"
      2 "()" Timeout "()" "[]"
      "\<lparr>status_code = 404, resp_text = []\<rparr>" "((), [])"
      "\<lparr>status_code = 200, resp_text = ''list''\<rparr>" "()" "''3''" 3
      "\<lambda>q. if q = 1 then [stub_entry] else []" "[1, 2, 3]"]
  by (simp add: stub_env_simps stub_get_pages first_url_page stub_fields
      stub_pagination upto_3 stub_orders stub_entry_def collected_def)

text \<open>
  The claim as written fails on the small site when the task of page 2, whose request times
  out, completes first: the task of page 1 has a record, and the run writes none.
\<close>

theorem failed_page_stops_run_counterexample:
  "requests_get stub_env (page_url 2) () = (Inl Timeout, ())
   \<and> stub_results 2 = Inr []
   \<and> stub_results 1 = Inr [stub_entry]
   \<and> completion_order 3 [2, 1, 3]
   \<and> main stub_env stub_results [2, 1, 3] ((), []) =
       (Inr (), ((), [HttpGet first_url, Submit 1, Submit 2, Submit 3,
          LogInfo ''Total entries scraped'', LogInfo ''Total scraping time'',
          ToExcel ''tuzilastvobih_gov.xlsx'' [], LogInfo ''Saved'']))"
  by (simp add: main_def scrape_all_pages_def call_get_def first_url_page stub_env_simps
      stub_get_pages stub_fields stub_pagination stub_results_eval upto_3 stub_orders
      emit_def save_to_excel_def)

text \<open>
  Claim C3, as amended. For every completion order, every page is submitted and none is
  cancelled, and the aggregate holds the records of exactly the tasks that complete before
  the first empty result is observed, in completion order. The records of the tasks that
  complete after it are not incorporated, whatever they are: \<open>after\<close> and the results of
  its pages are arbitrary.
\<close>

theorem first_empty_stops_aggregation:
  "requests_get env first_url (fst s) = (Inr resp, w1)
     \<and> pagination env (resp_text resp) = Some total_page \<and> py_int total_page = Inr max_pages
     \<and> (\<forall>q\<in>set before. results q = Inr (recs q) \<and> recs q \<noteq> []) \<and> results p = Inr []
   \<longrightarrow> scrape_all_pages env results (before @ p # after) acc s =
         (Inr (acc @ concat (map recs before)),
          (w1, snd s @ [HttpGet first_url] @ map Submit [1..max_pages] @
             [LogInfo ''Total entries scraped'', LogInfo ''Total scraping time'']))"
proof
  assume a: "requests_get env first_url (fst s) = (Inr resp, w1)
     \<and> pagination env (resp_text resp) = Some total_page \<and> py_int total_page = Inr max_pages
     \<and> (\<forall>q\<in>set before. results q = Inr (recs q) \<and> recs q \<noteq> []) \<and> results p = Inr []"
  then have "as_completed_loop (map results (before @ p # after)) acc =
      Inr (acc @ concat (map recs before))"
    by (intro as_completed_loop_first_empty) simp_all
  with a show "scrape_all_pages env results (before @ p # after) acc s =
         (Inr (acc @ concat (map recs before)),
          (w1, snd s @ [HttpGet first_url] @ map Submit [1..max_pages] @
             [LogInfo ''Total entries scraped'', LogInfo ''Total scraping time'']))"
    by (intro scrape_all_pages_ok [where resp = resp and total_page = total_page]) simp_all
qed

theorem first_empty_stops_aggregation_witness:
  "requests_get stub_env first_url () = (Inr \<lparr>status_code = 200, resp_text = ''list''\<rparr>, ())
   \<and> pagination stub_env ''list'' = Some ''3'' \<and> py_int ''3'' = Inr 3
   \<and> stub_results 1 = Inr [stub_entry] \<and> [stub_entry] \<noteq> [] \<and> stub_results 3 = Inr []
   \<and> completion_order 3 [1, 3, 2]
   \<and> scrape_all_pages stub_env stub_results [1, 3, 2] [] ((), []) =
       (Inr [stub_entry], ((), [HttpGet first_url, Submit 1, Submit 2, Submit 3,
          LogInfo ''Total entries scraped'', LogInfo ''Total scraping time'']))"
  using first_empty_stops_aggregation [of stub_env "((), [])"
      "\<lparr>status_code = 200, resp_text = ''list''\<rparr>" "()" "''3''" 3 "[1]" stub_results
      "\<lambda>q. [stub_entry]" 3 "[2]" "[]"]
  by (simp add: stub_env_simps stub_get_pages first_url_page stub_fields stub_pagination
      upto_3 stub_orders stub_results_eval)

text \<open>
  The claim as written fails on the small site when the task of the empty page 3 completes
  first: the task of page 1 completes after it with a record, and the aggregate is empty.
\<close>

theorem late_results_dropped_counterexample:
  "stub_results 3 = Inr []
   \<and> stub_results 1 = Inr [stub_entry] \<and> stub_entry \<noteq> []
   \<and> completion_order 3 [3, 1, 2]
   \<and> scrape_all_pages stub_env stub_results [3, 1, 2] [] ((), []) =
       (Inr [], ((), [HttpGet first_url, Submit 1, Submit 2, Submit 3,
          LogInfo ''Total entries scraped'', LogInfo ''Total scraping time'']))"
  by (simp add: scrape_all_pages_def call_get_def first_url_page stub_env_simps
      stub_get_pages stub_fields stub_pagination stub_results_eval upto_3 stub_orders
      emit_def stub_entry_def)

text \<open>
  The ways in which \<open>main\<close> ends before any task is submitted and without a spreadsheet:
  the first request raises, the page has no page count (\<open>int(None)\<close> raises), or the page
  count does not parse. The trace then holds the first request and nothing else.
\<close>

lemma setup_exception_aborts:
  "requests_get env first_url (fst s) = (r, w1)
     \<and> ((\<exists>e. r = Inl e)
        \<or> (\<exists>resp. r = Inr resp \<and> pagination env (resp_text resp) = None)
        \<or> (\<exists>resp t e. r = Inr resp \<and> pagination env (resp_text resp) = Some t
              \<and> py_int t = Inl e))
   \<longrightarrow> (\<exists>e. main env results completed s = (Inl e, (w1, snd s @ [HttpGet first_url])))"
  by (auto simp: main_def scrape_all_pages_def call_get_def)

lemma setup_exception_aborts_examples:
  "main (stub_env\<lparr>requests_get := \<lambda>u w. (Inl ConnectionError, w)\<rparr>) stub_results [1, 2, 3]
       ((), []) = (Inl ConnectionError, ((), [HttpGet first_url]))"
  "main (stub_env\<lparr>pagination := \<lambda>t. None\<rparr>) stub_results [1, 2, 3] ((), []) =
       (Inl TypeError, ((), [HttpGet first_url]))"
  "main (stub_env\<lparr>pagination := \<lambda>t. Some ''>>''\<rparr>) stub_results [1, 2, 3] ((), []) =
       (Inl ValueError, ((), [HttpGet first_url]))"
  "main (stub_env\<lparr>pagination := \<lambda>t. Some [CHR 0x1C, CHR ''2'']\<rparr>) stub_results [1, 2, 3]
       ((), []) = (Inl ValueError, ((), [HttpGet first_url]))"
  by (simp_all add: main_def scrape_all_pages_def call_get_def stub_env_simps stub_get_pages
      first_url_page stub_pagination)

text \<open>
  Claim C9. A run whose first archive page cannot be fetched, or has no page count that
  parses, is to end before any task is submitted and with nothing persisted. The code does
  not do so when the server answers the first request with an error status:
  \<open>scrape_all_pages\<close> has no \<open>raise_for_status\<close>, which \<open>fetch_page_content\<close> and
  \<open>extract_news_entry\<close> call after their requests. On the small site with the first page
  answered by status 500 and a body that holds the page count, the run submits every task
  and writes a spreadsheet.
\<close>

theorem first_page_error_status_runs_on:
  "requests_get stub_env_500 first_url () =
     (Inr \<lparr>status_code = 500, resp_text = ''list''\<rparr>, ())
   \<and> raise_for_status \<lparr>status_code = 500, resp_text = ''list''\<rparr> = Inl HTTPError
   \<and> pagination stub_env_500 ''list'' = Some ''3''
   \<and> stub_results_500 1 = Inr [] \<and> stub_results_500 2 = Inr [] \<and> stub_results_500 3 = Inr []
   \<and> completion_order 3 [1, 2, 3]
   \<and> main stub_env_500 stub_results_500 [1, 2, 3] ((), []) =
       (Inr (), ((), [HttpGet first_url, Submit 1, Submit 2, Submit 3,
          LogInfo ''Total entries scraped'', LogInfo ''Total scraping time'',
          ToExcel ''tuzilastvobih_gov.xlsx'' [], LogInfo ''Saved'']))"
  by (simp add: main_def scrape_all_pages_def call_get_def first_url_page stub_500_simps
      stub_results_500_eval stub_pagination upto_3 stub_orders raise_for_status_def emit_def
      save_to_excel_def)

section \<open>Claims about format_date\<close>

text \<open>
  Claim C4, as amended. \<open>format_date\<close> maps \<open>05.03.2021. 14:30\<close> to the pair
  \<open>2021-03-05\<close>, \<open>14:30\<close>. For every input that \<open>strptime\<close> rejects, \<open>None\<close> included,
  it logs the error and returns a pair, raising nothing; the pair is \<open>N/A\<close>, \<open>N/A\<close>, not
  \<open>unknown\<close>, \<open>unknown\<close> as the claim has it.
\<close>

theorem format_date_sentinel:
  "fst (format_date (Some ''05.03.2021. 14:30'') s) = (''2021-03-05'', ''14:30'')
   \<and> (strptime date_str = Inl e \<longrightarrow>
        format_date date_str s = ((''N/A'', ''N/A''), emit (LogError ''Date parsing error'') s))"
  by (simp add: format_date_def strptime_example strftime_date_def strftime_time_def
      zfill2_def str_int_def str_nat.simps digit_char_def)

theorem format_date_sentinel_witness:
  "strptime (Some ''not-a-date'') = Inl ValueError
   \<and> format_date (Some ''not-a-date'') ((), []) =
       ((''N/A'', ''N/A''), ((), [LogError ''Date parsing error'']))
   \<and> strptime (Some ''31.02.2021. 14:30'') = Inl ValueError
   \<and> fst (format_date (Some ''31.02.2021. 14:30'') ((), [])) = (''N/A'', ''N/A'')
   \<and> strptime (Some ''05.03.2021.'') = Inl ValueError
   \<and> fst (format_date (Some ''05.03.2021.'') ((), [])) = (''N/A'', ''N/A'')
   \<and> strptime None = Inl TypeError
   \<and> fst (format_date None ((), [])) = (''N/A'', ''N/A'')"
  using format_date_sentinel [of "((), [])" "Some ''not-a-date''" ValueError]
    format_date_sentinel [of "((), [])" "Some ''31.02.2021. 14:30''" ValueError]
    format_date_sentinel [of "((), [])" "Some ''05.03.2021.''" ValueError]
    format_date_sentinel [of "((), [])" None TypeError]
  by (simp add: strptime_failures emit_def)

text \<open>The claim as written fails at the input \<open>not-a-date\<close>.\<close>

theorem format_date_unknown_counterexample:
  "strptime (Some ''not-a-date'') = Inl ValueError
   \<and> fst (format_date (Some ''not-a-date'') ((), [])) = (''N/A'', ''N/A'')
   \<and> fst (format_date (Some ''not-a-date'') ((), [])) \<noteq> (''unknown'', ''unknown'')"
  by (simp add: format_date_def strptime_failures)

section \<open>Claims about safe_translate\<close>

text \<open>
  Claim C5, as amended. For every text, and so for every text longer than \<open>chunk_size\<close>,
  the chunks are runs of whole words of the text, each run joined by single spaces, and
  the words of the chunks, read in order, are the words of the text: no word is cut. Every
  chunk is at most \<open>chunk_size\<close> long when no single word of the text is longer than
  \<open>chunk_size\<close>; a longer word cannot be kept whole within the limit.
\<close>

theorem chunks_are_whole_words:
  "(\<exists>groups. concat groups = str_split txt
       \<and> make_chunks chunk_size txt = map (str_join '' '') groups)
   \<and> concat (map str_split (make_chunks chunk_size txt)) = str_split txt
   \<and> ((\<forall>w\<in>set (str_split txt). int (length w) \<le> chunk_size)
        \<longrightarrow> (\<forall>c\<in>set (make_chunks chunk_size txt). int (length c) \<le> chunk_size))"
proof (intro conjI impI)
  show "\<exists>groups. concat groups = str_split txt
       \<and> make_chunks chunk_size txt = map (str_join '' '') groups"
    using make_chunks_groups [of "txt" chunk_size] by blast
  show "concat (map str_split (make_chunks chunk_size txt)) = str_split txt"
    by (rule make_chunks_words)
  assume "\<forall>w\<in>set (str_split txt). int (length w) \<le> chunk_size"
  then show "\<forall>c\<in>set (make_chunks chunk_size txt). int (length c) \<le> chunk_size"
    by (rule make_chunks_len)
qed

theorem chunks_are_whole_words_witness:
  "int (length ''ab  cd efg hijk lmnopq r'') > 10
   \<and> str_split ''ab  cd efg hijk lmnopq r'' =
       [''ab'', ''cd'', ''efg'', ''hijk'', ''lmnopq'', ''r'']
   \<and> list_all (\<lambda>w. int (length w) \<le> 10) (str_split ''ab  cd efg hijk lmnopq r'')
   \<and> make_chunks 10 ''ab  cd efg hijk lmnopq r'' = [''ab cd efg'', ''hijk'', ''lmnopq r'']
   \<and> list_all (\<lambda>c. int (length c) \<le> 10) (make_chunks 10 ''ab  cd efg hijk lmnopq r'')
   \<and> concat (map str_split (make_chunks 10 ''ab  cd efg hijk lmnopq r'')) =
       str_split ''ab  cd efg hijk lmnopq r''"
  using chunks_are_whole_words [of "''ab  cd efg hijk lmnopq r''" 10]
  by (simp add: str_split_six make_chunks_six list_all_iff)

text \<open>
  The claim as written fails for a text with a word longer than the limit: with
  \<open>chunk_size\<close> 5, the second chunk is the word of 8 characters.
\<close>

theorem long_word_chunk_counterexample:
  "int (length ''ab cdefghij kl'') > 5
   \<and> make_chunks 5 ''ab cdefghij kl'' = [''ab'', ''cdefghij'', ''kl'']
   \<and> \<not> int (length ''cdefghij'') \<le> 5"
  by (simp add: make_chunks_def str_split_def str_strip_def isspace_def)

text \<open>
  Claim C6. Translation is best-effort. For a text of at least 3 and at most \<open>chunk_size\<close>
  characters whose translation call raises, \<open>safe_translate\<close> returns the text unchanged.
  For a longer text the result is the chunks joined with one space, where each chunk
  stands as the service translated it, or as it was when its own call raised;
  \<open>chunk_outcomes\<close> are the answers to the calls, made chunk by chunk in order.
\<close>

theorem translation_best_effort:
  "(3 \<le> length txt \<and> int (length txt) \<le> chunk_size \<and>
      translate_text env txt (fst s) = (Inl e, w')
      \<longrightarrow> fst (safe_translate env txt chunk_size s) = txt)
   \<and> (3 \<le> length txt \<and> int (length txt) > chunk_size
      \<longrightarrow> fst (safe_translate env txt chunk_size s) =
            str_join '' '' (map2 or_original (make_chunks chunk_size txt)
              (chunk_outcomes env (make_chunks chunk_size txt) (fst s))))"
proof (intro conjI impI)
  assume "3 \<le> length txt \<and> int (length txt) \<le> chunk_size \<and>
      translate_text env txt (fst s) = (Inl e, w')"
  then show "fst (safe_translate env txt chunk_size s) = txt"
    by (auto simp: safe_translate_def call_translate_def)
next
  assume a: "3 \<le> length txt \<and> int (length txt) > chunk_size"
  then have "txt \<noteq> []" by auto
  then show "fst (safe_translate env txt chunk_size s) =
            str_join '' '' (map2 or_original (make_chunks chunk_size txt)
              (chunk_outcomes env (make_chunks chunk_size txt) (fst s)))"
    using a translate_chunks_acc [of env "make_chunks chunk_size txt" "[]" s]
    by (cases "translate_chunks env (make_chunks chunk_size txt) [] s")
       (simp add: safe_translate_def)
qed

theorem translation_best_effort_witness:
  "translate_text stub_env ''Vijest o sudu'' () = (Inl OtherException, ())
   \<and> fst (safe_translate stub_env ''Vijest o sudu'' 3000 ((), [])) = ''Vijest o sudu''
   \<and> make_chunks 8 ''Vijest o sudu'' = [''Vijest o'', ''sudu'']
   \<and> chunk_outcomes stub_env [''Vijest o'', ''sudu''] () =
       [Inr ''News about'', Inl OtherException]
   \<and> fst (safe_translate stub_env ''Vijest o sudu'' 8 ((), [])) = ''News about sudu''"
  using translation_best_effort
      [of "''Vijest o sudu''" 3000 stub_env "((), [])" OtherException "()"]
    translation_best_effort
      [of "''Vijest o sudu''" 8 stub_env "((), [])" OtherException "()"]
  by (simp add: make_chunks_two stub_env_simps stub_translate_def or_original_def)

text \<open>
  Claim C7. For every text that is empty or shorter than 3 characters, \<open>safe_translate\<close>
  returns the empty string and makes no call of the translation service: the state, that is
  the world and the trace of calls and log records, is returned as it was.
\<close>

theorem short_text_not_translated:
  "length txt < 3 \<Longrightarrow> safe_translate env txt chunk_size s = ([], s)"
  by (simp add: safe_translate_def)

theorem short_text_not_translated_witness:
  "length ''ab'' < 3 \<and>
   safe_translate stub_env ''ab'' 3000 ((), [HttpGet ''u'']) = ([], ((), [HttpGet ''u'']))"
  using short_text_not_translated [of "''ab''" stub_env 3000 "((), [HttpGet ''u''])"] by simp

section \<open>Claims about extract_news_entry\<close>

text \<open>
  Claim C8. Every entry that \<open>extract_news_entry\<close> returns has all nine keys, each once and
  in the order of \<open>entry_keys\<close>, each with a string as its value. When the row has a link
  and the detail page is fetched with a status that \<open>raise_for_status\<close> accepts, such an
  entry is returned whatever \<open>format_date\<close> and the three translations do: their failures
  put fallback values in the fields and leave no field out.
\<close>

theorem entry_has_all_fields:
  "(fst (extract_news_entry env r s) = Some entry \<longrightarrow> map fst entry = entry_keys)
   \<and> (h3_href r = Some u \<and> u \<noteq> [] \<and> requests_get env (base_url @ u) (fst s) = (Inr resp, w1)
        \<and> raise_for_status resp = Inr ()
      \<longrightarrow> (\<exists>entry'. fst (extract_news_entry env r s) = Some entry'
             \<and> map fst entry' = entry_keys))"
proof (intro conjI impI)
  assume "fst (extract_news_entry env r s) = Some entry"
  then show "map fst entry = entry_keys" by (rule extract_keys)
next
  assume "h3_href r = Some u \<and> u \<noteq> [] \<and> requests_get env (base_url @ u) (fst s) = (Inr resp, w1)
        \<and> raise_for_status resp = Inr ()"
  then obtain entry' where "fst (extract_news_entry env r s) = Some entry'"
    using extract_emits [of r u env s resp w1] by blast
  then show "\<exists>entry'. fst (extract_news_entry env r s) = Some entry'
      \<and> map fst entry' = entry_keys"
    using extract_keys by blast
qed

theorem entry_has_all_fields_witness:
  "h3_href \<lparr>h3_texts = [''Vijest''], h3_href = Some ''?id=7''\<rparr> = Some ''?id=7''
   \<and> requests_get stub_env (base_url @ ''?id=7'') () =
       (Inr \<lparr>status_code = 200, resp_text = ''article''\<rparr>, ())
   \<and> raise_for_status \<lparr>status_code = 200, resp_text = ''article''\<rparr> = Inr ()
   \<and> strptime (date_text (detail_page stub_env ''article'')) = Inl ValueError
   \<and> translate_text stub_env ''Kratak opis'' () = (Inl OtherException, ())
   \<and> fst (extract_news_entry stub_env \<lparr>h3_texts = [''Vijest''], h3_href = Some ''?id=7''\<rparr>
        ((), [])) = Some stub_entry
   \<and> map fst stub_entry = entry_keys
   \<and> length entry_keys = 9 \<and> distinct entry_keys"
  using entry_has_all_fields [of stub_env "\<lparr>h3_texts = [''Vijest''], h3_href = Some ''?id=7''\<rparr>"
      "((), [])" stub_entry "''?id=7''" "\<lparr>status_code = 200, resp_text = ''article''\<rparr>" "()"]
  by (simp add: stub_extract stub_env_simps stub_get_article raise_for_status_def stub_fields
      strptime_failures stub_translate_def entry_keys_def)

text \<open>
  Claim C10. For a listing row whose heading has no link, \<open>extract_news_entry\<close> returns no
  entry and leaves the state as it was: no request, no log record, no exception. The rows
  of the same page are all processed: the loop returns, after what it had, the entries of
  the rows before the row and then the entries of the rows after it, each row extracted in
  the state the rows before it left, and the row itself adds nothing to the entries or to
  the state. (The same holds for a link that is the empty string.)
\<close>

theorem missing_link_skipped:
  "h3_href r = None \<or> h3_href r = Some [] \<longrightarrow>
     extract_news_entry env r s = (None, s)
     \<and> collect_entries env (rows1 @ r # rows2) acc s =
         (acc @ some_entries (row_outcomes env rows1 s)
              @ some_entries (row_outcomes env rows2 (rows_state env rows1 s)),
          rows_state env rows2 (rows_state env rows1 s))
     \<and> collect_entries env (rows1 @ r # rows2) acc s =
         collect_entries env (rows1 @ rows2) acc s"
proof
  assume a: "h3_href r = None \<or> h3_href r = Some []"
  then have none: "extract_news_entry env r s' = (None, s')" for s'
    by (rule extract_no_link)
  have "row_outcomes env (r # rows2) s' = None # row_outcomes env rows2 s'" for s'
    by (simp add: none)
  moreover have "rows_state env (r # rows2) s' = rows_state env rows2 s'" for s'
    by (simp add: none)
  ultimately have full: "collect_entries env (rows1 @ r # rows2) acc s =
         (acc @ some_entries (row_outcomes env rows1 s)
              @ some_entries (row_outcomes env rows2 (rows_state env rows1 s)),
          rows_state env rows2 (rows_state env rows1 s))"
    by (simp add: collect_entries_outcomes row_outcomes_append rows_state_append
        some_entries_append)
  have "collect_entries env (rows1 @ rows2) acc s =
         (acc @ some_entries (row_outcomes env rows1 s)
              @ some_entries (row_outcomes env rows2 (rows_state env rows1 s)),
          rows_state env rows2 (rows_state env rows1 s))"
    by (simp add: collect_entries_outcomes row_outcomes_append rows_state_append
        some_entries_append)
  with full none show "extract_news_entry env r s = (None, s)
     \<and> collect_entries env (rows1 @ r # rows2) acc s =
         (acc @ some_entries (row_outcomes env rows1 s)
              @ some_entries (row_outcomes env rows2 (rows_state env rows1 s)),
          rows_state env rows2 (rows_state env rows1 s))
     \<and> collect_entries env (rows1 @ r # rows2) acc s =
         collect_entries env (rows1 @ rows2) acc s"
    by simp
qed

theorem missing_link_skipped_witness:
  "h3_href \<lparr>h3_texts = [''Bez linka''], h3_href = None\<rparr> = None
   \<and> extract_news_entry stub_env \<lparr>h3_texts = [''Bez linka''], h3_href = None\<rparr> ((), []) =
       (None, ((), []))
   \<and> row_outcomes stub_env [\<lparr>h3_texts = [''Vijest''], h3_href = Some ''?id=7''\<rparr>] ((), []) =
       [Some stub_entry]
   \<and> rows_state stub_env [\<lparr>h3_texts = [''Vijest''], h3_href = Some ''?id=7''\<rparr>] ((), []) =
       ((), stub_article_trace)
   \<and> row_outcomes stub_env [\<lparr>h3_texts = [''Vijest''], h3_href = Some ''?id=7''\<rparr>]
        ((), stub_article_trace) = [Some stub_entry]
   \<and> collect_entries stub_env
        [\<lparr>h3_texts = [''Vijest''], h3_href = Some ''?id=7''\<rparr>,
         \<lparr>h3_texts = [''Bez linka''], h3_href = None\<rparr>,
         \<lparr>h3_texts = [''Vijest''], h3_href = Some ''?id=7''\<rparr>] [] ((), []) =
       ([stub_entry, stub_entry], ((), stub_article_trace @ stub_article_trace))"
  using missing_link_skipped [of "\<lparr>h3_texts = [''Bez linka''], h3_href = None\<rparr>" stub_env
      "((), [])" "[\<lparr>h3_texts = [''Vijest''], h3_href = Some ''?id=7''\<rparr>]"
      "[\<lparr>h3_texts = [''Vijest''], h3_href = Some ''?id=7''\<rparr>]" "[]"]
  by (simp add: stub_extract stub_no_link stub_article_trace_def base_url_def stub_entry_def)

end
